theory Spec2Isabelle
  imports Complex_Main "HOL-Library.AList"
begin

section \<open>JavaScript numbers\<close>

text \<open>
  The statistics engine of \<open>ExperimentAnalysisModal\<close> computes with JavaScript numbers.
  A number is modelled as a real, one of the two infinities, or NaN. Arithmetic on the
  special values follows IEEE 754 as ECMAScript prescribes it; arithmetic on finite
  values is exact: rounding, overflow to an infinity and the sign of zero are left out
  (no divisor of the code below can be a negative zero). The model computes the value
  of the code wherever no operation of the code rounds or overflows. Comparisons, the
  minimum, the maximum and the order of a sort do not depend on rounding: the sign of
  a rounded difference is the sign of the difference.
\<close>

datatype jsnum = Fin real | PInf | NInf | NaN

fun isNaN :: "jsnum \<Rightarrow> bool" where
  "isNaN NaN = True"
| "isNaN _ = False"

fun js_neg :: "jsnum \<Rightarrow> jsnum" where
  "js_neg (Fin a) = Fin (- a)"
| "js_neg PInf = NInf"
| "js_neg NInf = PInf"
| "js_neg NaN = NaN"

text \<open>\<open>a + b\<close>\<close>

fun js_add :: "jsnum \<Rightarrow> jsnum \<Rightarrow> jsnum" where
  "js_add (Fin a) (Fin b) = Fin (a + b)"
| "js_add (Fin a) PInf = PInf"
| "js_add (Fin a) NInf = NInf"
| "js_add PInf (Fin b) = PInf"
| "js_add PInf PInf = PInf"
| "js_add PInf NInf = NaN"
| "js_add NInf (Fin b) = NInf"
| "js_add NInf PInf = NaN"
| "js_add NInf NInf = NInf"
| "js_add NaN _ = NaN"
| "js_add _ NaN = NaN"

text \<open>\<open>a - b\<close>\<close>

definition js_sub :: "jsnum \<Rightarrow> jsnum \<Rightarrow> jsnum" where
  "js_sub a b = js_add a (js_neg b)"

text \<open>\<open>a * b\<close>\<close>

fun js_mul :: "jsnum \<Rightarrow> jsnum \<Rightarrow> jsnum" where
  "js_mul (Fin a) (Fin b) = Fin (a * b)"
| "js_mul (Fin a) PInf = (if a = 0 then NaN else if 0 < a then PInf else NInf)"
| "js_mul (Fin a) NInf = (if a = 0 then NaN else if 0 < a then NInf else PInf)"
| "js_mul PInf (Fin b) = (if b = 0 then NaN else if 0 < b then PInf else NInf)"
| "js_mul NInf (Fin b) = (if b = 0 then NaN else if 0 < b then NInf else PInf)"
| "js_mul PInf PInf = PInf"
| "js_mul PInf NInf = NInf"
| "js_mul NInf PInf = NInf"
| "js_mul NInf NInf = PInf"
| "js_mul NaN _ = NaN"
| "js_mul _ NaN = NaN"

text \<open>\<open>a / b\<close>: a finite value over zero is an infinity, zero over zero is NaN.\<close>

fun js_div :: "jsnum \<Rightarrow> jsnum \<Rightarrow> jsnum" where
  "js_div (Fin a) (Fin b) =
     (if b = 0 then (if a = 0 then NaN else if 0 < a then PInf else NInf)
      else Fin (a / b))"
| "js_div (Fin a) PInf = Fin 0"
| "js_div (Fin a) NInf = Fin 0"
| "js_div PInf (Fin b) = (if 0 \<le> b then PInf else NInf)"
| "js_div NInf (Fin b) = (if 0 \<le> b then NInf else PInf)"
| "js_div PInf PInf = NaN"
| "js_div PInf NInf = NaN"
| "js_div NInf PInf = NaN"
| "js_div NInf NInf = NaN"
| "js_div NaN _ = NaN"
| "js_div _ NaN = NaN"

text \<open>\<open>Math.pow(a, 2)\<close>, \<open>Math.sqrt(a)\<close>, \<open>Math.abs(a)\<close>\<close>

fun Math_pow2 :: "jsnum \<Rightarrow> jsnum" where
  "Math_pow2 (Fin a) = Fin (a ^ 2)"
| "Math_pow2 PInf = PInf"
| "Math_pow2 NInf = PInf"
| "Math_pow2 NaN = NaN"

fun Math_sqrt :: "jsnum \<Rightarrow> jsnum" where
  "Math_sqrt (Fin a) = (if a < 0 then NaN else Fin (sqrt a))"
| "Math_sqrt PInf = PInf"
| "Math_sqrt NInf = NaN"
| "Math_sqrt NaN = NaN"

fun Math_abs :: "jsnum \<Rightarrow> jsnum" where
  "Math_abs (Fin a) = Fin \<bar>a\<bar>"
| "Math_abs PInf = PInf"
| "Math_abs NInf = PInf"
| "Math_abs NaN = NaN"

text \<open>\<open>a < b\<close>, \<open>a > b\<close>, \<open>a <= b\<close>, \<open>a === b\<close>: every comparison with NaN is false.\<close>

fun js_lt :: "jsnum \<Rightarrow> jsnum \<Rightarrow> bool" where
  "js_lt (Fin a) (Fin b) = (a < b)"
| "js_lt (Fin a) PInf = True"
| "js_lt (Fin a) NInf = False"
| "js_lt PInf _ = False"
| "js_lt NInf (Fin b) = True"
| "js_lt NInf PInf = True"
| "js_lt NInf NInf = False"
| "js_lt NaN _ = False"
| "js_lt _ NaN = False"

definition js_gt :: "jsnum \<Rightarrow> jsnum \<Rightarrow> bool" where
  "js_gt a b = js_lt b a"

definition js_eq :: "jsnum \<Rightarrow> jsnum \<Rightarrow> bool" where
  "js_eq a b = (if isNaN a then False else a = b)"

definition js_le :: "jsnum \<Rightarrow> jsnum \<Rightarrow> bool" where
  "js_le a b = (if js_lt a b then True else js_eq a b)"

text \<open>\<open>a || b\<close> on numbers: zero and NaN are falsy.\<close>

definition js_or :: "jsnum \<Rightarrow> jsnum \<Rightarrow> jsnum" where
  "js_or a b = (if a = Fin 0 then b else if isNaN a then b else a)"

text \<open>
  \<open>Math.min(...xs)\<close> and \<open>Math.max(...xs)\<close>: NaN if an argument is NaN, and
  \<open>Infinity\<close> (\<open>-Infinity\<close>) for no argument.
\<close>

definition min2 :: "jsnum \<Rightarrow> jsnum \<Rightarrow> jsnum" where
  "min2 a b = (if isNaN a then NaN else if isNaN b then NaN else if js_lt b a then b else a)"

definition max2 :: "jsnum \<Rightarrow> jsnum \<Rightarrow> jsnum" where
  "max2 a b = (if isNaN a then NaN else if isNaN b then NaN else if js_lt a b then b else a)"

definition Math_min :: "jsnum list \<Rightarrow> jsnum" where
  "Math_min xs = foldl min2 PInf xs"

definition Math_max :: "jsnum list \<Rightarrow> jsnum" where
  "Math_max xs = foldl max2 NInf xs"

text \<open>
  \<open>xs[i]\<close> where the result is used as a number: an index out of range reads
  \<open>undefined\<close>, which arithmetic turns into NaN.
\<close>

definition js_nth :: "jsnum list \<Rightarrow> nat \<Rightarrow> jsnum" where
  "js_nth xs i = (if i < length xs then xs ! i else NaN)"

text \<open>
  \<open>[...xs].sort((a, b) => a - b)\<close>: the sort is stable, and the comparator is
  consistent on every list without NaN (two equal infinities compare as NaN, which the
  sort reads as 0), so the result is the stable insertion of each element before the
  first one it is smaller than.
\<close>

fun sort_insert :: "jsnum \<Rightarrow> jsnum list \<Rightarrow> jsnum list" where
  "sort_insert x [] = [x]"
| "sort_insert x (y # ys) =
     (if js_lt (js_sub x y) (Fin 0) then x # y # ys else y # sort_insert x ys)"

definition js_sort :: "jsnum list \<Rightarrow> jsnum list" where
  "js_sort xs = foldr sort_insert xs []"

section \<open>Cells, rows and \<open>parseFloat\<close>\<close>

text \<open>
  A cell of a data row is a JSON scalar. \<open>parseFloat\<close> converts its argument to a
  string, skips leading white space and reads the longest prefix that is a decimal
  literal: an optional sign, then \<open>Infinity\<close> or digits with an optional fraction and
  an optional exponent. A string is the list of its bytes in UTF-8. The value of a
  literal is taken exactly, without rounding to a double, except that a value that
  rounds beyond the largest double is an infinity.
\<close>

datatype jsval = JStr string | JNum jsnum | JBool bool | JNull

text \<open>
  The white space and line terminators of ECMAScript. In one byte: TAB, LF, VT, FF, CR
  and SP. In two bytes: U+00A0. In three bytes: U+1680, U+2000 to U+200A, U+2028,
  U+2029, U+202F, U+205F, U+3000 and U+FEFF.
\<close>

definition is_space :: "char \<Rightarrow> bool" where
  "is_space c = (c \<in> set [CHR 0x09, CHR 0x0A, CHR 0x0B, CHR 0x0C, CHR 0x0D, CHR 0x20])"

definition is_space2 :: "char \<Rightarrow> string \<Rightarrow> bool" where
  "is_space2 c r = (c = CHR 0xC2 \<and> take 1 r = [CHR 0xA0])"

definition is_space3 :: "char \<Rightarrow> string \<Rightarrow> bool" where
  "is_space3 c r =
     (case take 2 r of
        [d, e] \<Rightarrow>
          (c = CHR 0xE1 \<and> d = CHR 0x9A \<and> e = CHR 0x80)
          \<or> (c = CHR 0xE2 \<and> d = CHR 0x80
              \<and> (0x80 \<le> (of_char e :: nat) \<and> (of_char e :: nat) \<le> 0x8A
                  \<or> e \<in> set [CHR 0xA8, CHR 0xA9, CHR 0xAF]))
          \<or> (c = CHR 0xE2 \<and> d = CHR 0x81 \<and> e = CHR 0x9F)
          \<or> (c = CHR 0xE3 \<and> d = CHR 0x80 \<and> e = CHR 0x80)
          \<or> (c = CHR 0xEF \<and> d = CHR 0xBB \<and> e = CHR 0xBF)
      | _ \<Rightarrow> False)"

function trimStart :: "string \<Rightarrow> string" where
  "trimStart [] = []"
| "trimStart (c # r) =
     (if is_space c then trimStart r
      else if is_space2 c r then trimStart (drop 1 r)
      else if is_space3 c r then trimStart (drop 2 r)
      else c # r)"
  by pat_completeness auto
termination
  by (relation "measure length") auto

text \<open>
  A literal whose value is at least \<open>2 ^ 1024 - 2 ^ 970\<close>, half a unit in the last
  place beyond the largest double, rounds to an infinity.
\<close>

definition overflows :: "real \<Rightarrow> bool" where
  "overflows v = (2 ^ 1024 - 2 ^ 970 \<le> v)"

definition is_digit :: "char \<Rightarrow> bool" where
  "is_digit c = (c \<in> set ''0123456789'')"

definition digits_val :: "string \<Rightarrow> nat" where
  "digits_val ds = foldl (\<lambda>a c. 10 * a + (of_char c - 48)) 0 ds"

text \<open>The exponent part: \<open>e\<close> or \<open>E\<close>, an optional sign, and at least one digit.\<close>

definition exponent :: "string \<Rightarrow> bool \<times> nat" where
  "exponent s =
     (case s of
        [] \<Rightarrow> (False, 0)
      | c # r \<Rightarrow>
          if c = CHR ''e'' \<or> c = CHR ''E'' then
            (let (eneg, r') =
                   (case r of
                      [] \<Rightarrow> (False, r)
                    | d # t \<Rightarrow> if d = CHR ''-'' then (True, t)
                               else if d = CHR ''+'' then (False, t) else (False, r))
             in if takeWhile is_digit r' = [] then (False, 0)
                else (eneg, digits_val (takeWhile is_digit r')))
          else (False, 0))"

definition parseFloat_string :: "string \<Rightarrow> jsnum" where
  "parseFloat_string s =
     (let t = trimStart s;
          (neg, u) =
            (case t of
               [] \<Rightarrow> (False, t)
             | c # r \<Rightarrow> if c = CHR ''-'' then (True, r)
                        else if c = CHR ''+'' then (False, r) else (False, t))
      in if take 8 u = ''Infinity'' then (if neg then NInf else PInf)
         else
           (let ip = takeWhile is_digit u;
                r1 = dropWhile is_digit u;
                (fp, r2) =
                  (case r1 of
                     [] \<Rightarrow> ([], r1)
                   | c # r \<Rightarrow> if c = CHR ''.''
                              then (takeWhile is_digit r, dropWhile is_digit r)
                              else ([], r1))
            in if ip = [] \<and> fp = [] then NaN
               else
                 (let m = real (digits_val ip) + real (digits_val fp) / 10 ^ length fp;
                      (eneg, k) = exponent r2;
                      v = (if eneg then m / 10 ^ k else m * 10 ^ k)
                  in if overflows v then (if neg then NInf else PInf)
                     else Fin (if neg then - v else v))))"

text \<open>
  \<open>parseFloat(row[name])\<close>: a missing key reads \<open>undefined\<close>. A number prints as
  a string that parses back to itself; \<open>undefined\<close>, \<open>null\<close>, \<open>true\<close> and
  \<open>false\<close> print as words that are no literal.
\<close>

fun parseFloat :: "jsval option \<Rightarrow> jsnum" where
  "parseFloat None = NaN"
| "parseFloat (Some (JStr s)) = parseFloat_string s"
| "parseFloat (Some (JNum x)) = x"
| "parseFloat (Some (JBool b)) = NaN"
| "parseFloat (Some JNull) = NaN"

type_synonym row = "string \<rightharpoonup> jsval"

record param =
  name :: string
  unit :: "string option"

section \<open>Statistics\<close>

text \<open>
  The object stored in \<open>stats[param.name]\<close>. The fields are those of the source with
  the suffix \<open>_s\<close>.
\<close>

record stats =
  n_s :: nat
  mean_s :: jsnum
  median_s :: jsnum
  min_s :: jsnum
  max_s :: jsnum
  range_s :: jsnum
  variance_s :: jsnum
  stdDev_s :: jsnum
  cv_s :: jsnum
  trend_s :: jsnum
  values_s :: "jsnum list"

text \<open>\<open>values.reduce((a, b) => a + b, 0) / n\<close>\<close>

definition mean :: "jsnum list \<Rightarrow> jsnum" where
  "mean vs = js_div (foldl js_add (Fin 0) vs) (Fin (real (length vs)))"

definition median :: "jsnum list \<Rightarrow> jsnum" where
  "median vs =
     (let n = length vs; sortedValues = js_sort vs
      in if n mod 2 = 0
         then js_div (js_add (js_nth sortedValues (n div 2 - 1)) (js_nth sortedValues (n div 2)))
                (Fin 2)
         else js_nth sortedValues (n div 2))"

text \<open>\<open>values.reduce((sum, v) => sum + Math.pow(v - mean, 2), 0) / n\<close>\<close>

definition variance :: "jsnum list \<Rightarrow> jsnum" where
  "variance vs =
     js_div (foldl (\<lambda>sum v. js_add sum (Math_pow2 (js_sub v (mean vs)))) (Fin 0) vs)
       (Fin (real (length vs)))"

definition stdDev :: "jsnum list \<Rightarrow> jsnum" where
  "stdDev vs = Math_sqrt (variance vs)"

definition cv :: "jsnum list \<Rightarrow> jsnum" where
  "cv vs = js_mul (js_div (stdDev vs) (mean vs)) (Fin 100)"

text \<open>
  The trend: the loop \<open>values.forEach((y, x) => ...)\<close> accumulates the numerator and
  the denominator over the values \<open>y\<close> and their indices \<open>x\<close>.
\<close>

definition trend_step :: "jsnum \<Rightarrow> jsnum \<Rightarrow> jsnum \<times> jsnum \<Rightarrow> nat \<times> jsnum \<Rightarrow> jsnum \<times> jsnum" where
  "trend_step xMean m acc xy =
     (case acc of (numerator, denominator) \<Rightarrow>
      case xy of (x, y) \<Rightarrow>
        (js_add numerator (js_mul (js_sub (Fin (real x)) xMean) (js_sub y m)),
         js_add denominator (Math_pow2 (js_sub (Fin (real x)) xMean))))"

definition trend :: "jsnum list \<Rightarrow> jsnum" where
  "trend vs =
     (let n = length vs in
      if 1 < n then
        (let xMean = js_div (Fin (real n - 1)) (Fin 2);
             (numerator, denominator) =
               foldl (trend_step xMean (mean vs)) (Fin 0, Fin 0) (zip [0..<n] vs)
         in if js_eq denominator (Fin 0) then Fin 0 else js_div numerator denominator)
      else Fin 0)"

definition stats_of :: "jsnum list \<Rightarrow> stats" where
  "stats_of vs =
     \<lparr> n_s = length vs, mean_s = mean vs, median_s = median vs,
       min_s = Math_min vs, max_s = Math_max vs,
       range_s = js_sub (Math_max vs) (Math_min vs),
       variance_s = variance vs, stdDev_s = stdDev vs, cv_s = cv vs,
       trend_s = trend vs, values_s = vs \<rparr>"

text \<open>
  \<open>data.map(row => parseFloat(row[param.name])).filter(v => !isNaN(v))\<close>
\<close>

definition column :: "row list \<Rightarrow> string \<Rightarrow> jsnum list" where
  "column data nm = filter (\<lambda>v. \<not> isNaN v) (map (\<lambda>row. parseFloat (row nm)) data)"

text \<open>
  \<open>statistics\<close>: the object \<open>stats\<close> after \<open>params.forEach\<close>. An entry is
  \<open>None\<close> where the source stores \<open>null\<close>.
\<close>

definition statistics :: "param list \<Rightarrow> row list \<Rightarrow> (string \<rightharpoonup> stats option)" where
  "statistics params data =
     foldl (\<lambda>st p.
              st(name p \<mapsto>
                 (let vs = column data (name p)
                  in if length vs = 0 then None else Some (stats_of vs))))
       Map.empty params"

section \<open>Correlations\<close>

text \<open>
  An entry of the object \<open>corrs\<close>; \<open>value_c\<close> is the field \<open>value\<close> of the source.
\<close>

record corr =
  param1 :: string
  param2 :: string
  value_c :: jsnum
  strength :: string

text \<open>The loop \<open>for (let k = 0; k < n; k++) sum += (v1[k] - mean1) * (v2[k] - mean2)\<close>\<close>

definition pearson_sum :: "jsnum list \<Rightarrow> jsnum list \<Rightarrow> jsnum \<Rightarrow> jsnum \<Rightarrow> nat \<Rightarrow> jsnum" where
  "pearson_sum v1 v2 mean1 mean2 n =
     foldl (\<lambda>sum k. js_add sum (js_mul (js_sub (js_nth v1 k) mean1) (js_sub (js_nth v2 k) mean2)))
       (Fin 0) [0..<n]"

definition correlation :: "stats \<Rightarrow> stats \<Rightarrow> jsnum" where
  "correlation s1 s2 =
     (let v1 = values_s s1; v2 = values_s s2;
          n = min (length v1) (length v2);
          mean1 = mean_s s1; mean2 = mean_s s2;
          std1 = stdDev_s s1; std2 = stdDev_s s2;
          sum = pearson_sum v1 v2 mean1 mean2 n
      in if js_gt std1 (Fin 0) \<and> js_gt std2 (Fin 0)
         then js_div sum (js_mul (js_mul (Fin (real n)) std1) std2)
         else Fin 0)"

definition strength_of :: "jsnum \<Rightarrow> string" where
  "strength_of c =
     (if js_gt (Math_abs c) (Fin (7 / 10)) then ''strong''
      else if js_gt (Math_abs c) (Fin (4 / 10)) then ''moderate'' else ''weak'')"

text \<open>
  The body of the inner loop for the names \<open>p1\<close> and \<open>p2\<close>, with the object
  \<open>statistics\<close> as \<open>sts\<close>: \<open>continue\<close> leaves
  \<open>corrs\<close> as it is; an assignment to a key already present replaces its entry in place.
\<close>

definition corr_step ::
  "(string \<rightharpoonup> stats option) \<Rightarrow> (string \<times> corr) list \<Rightarrow> string \<Rightarrow> string \<Rightarrow> (string \<times> corr) list" where
  "corr_step sts corrs p1 p2 =
     (case sts p1 of
        None \<Rightarrow> corrs
      | Some None \<Rightarrow> corrs
      | Some (Some s1) \<Rightarrow>
          (case sts p2 of
             None \<Rightarrow> corrs
           | Some None \<Rightarrow> corrs
           | Some (Some s2) \<Rightarrow>
               if min (length (values_s s1)) (length (values_s s2)) < 2 then corrs
               else AList.update (p1 @ ''-'' @ p2)
                      \<lparr> param1 = p1, param2 = p2, value_c = correlation s1 s2,
                        strength = strength_of (correlation s1 s2) \<rparr>
                      corrs))"

definition correlations :: "param list \<Rightarrow> (string \<rightharpoonup> stats option) \<Rightarrow> (string \<times> corr) list" where
  "correlations params sts =
     (let paramNames = map name params
      in foldl (\<lambda>corrs i.
                  foldl (\<lambda>corrs j. corr_step sts corrs (paramNames ! i) (paramNames ! j))
                    corrs [i + 1..<length paramNames])
           [] [0..<length paramNames])"

section \<open>The chart\<close>

text \<open>
  What a component returns: the placeholder \<open>div\<close> with its text, or the \<open>svg\<close>
  with its children. A shape carries the attributes the source computes; the text of a
  label is the number it prints (\<open>tick.value.toFixed(1)\<close>, or the row number).
\<close>

datatype label = Fixed1 jsnum | RowNumber nat

datatype path_cmd = M | L

datatype svg =
    Line jsnum jsnum jsnum jsnum string "string option" "jsnum option"
      \<comment> \<open>x1, y1, x2, y2, stroke, strokeDasharray, opacity\<close>
  | Text jsnum jsnum string label
      \<comment> \<open>x, y, textAnchor, content\<close>
  | Path "(path_cmd \<times> jsnum \<times> jsnum) list" string
      \<comment> \<open>d, stroke\<close>
  | Circle jsnum jsnum jsnum string "jsnum option"
      \<comment> \<open>cx, cy, r, fill, opacity\<close>
  | Rect jsnum jsnum jsnum jsnum string jsnum
      \<comment> \<open>x, y, width, height, fill, opacity\<close>
  | G "(jsnum \<times> jsnum) option" "svg list"
      \<comment> \<open>transform translate, children\<close>

datatype element = Div string | Svg "svg list"

definition COLORS :: "string list" where
  "COLORS = [''#6366f1'', ''#22c55e'', ''#f59e0b'', ''#ef4444'', ''#8b5cf6'', ''#06b6d4'']"

definition width :: jsnum where "width = Fin 700"
definition height :: jsnum where "height = Fin 300"
definition padding_top :: jsnum where "padding_top = Fin 20"
definition padding_right :: jsnum where "padding_right = Fin 30"
definition padding_bottom :: jsnum where "padding_bottom = Fin 40"
definition padding_left :: jsnum where "padding_left = Fin 60"

definition chartWidth :: jsnum where
  "chartWidth = js_sub (js_sub width padding_left) padding_right"

definition chartHeight :: jsnum where
  "chartHeight = js_sub (js_sub height padding_top) padding_bottom"

definition tickCount :: nat where "tickCount = 5"

text \<open>\<open>allValues\<close>, \<open>minY\<close>, \<open>yRange\<close> and the two scales.\<close>

definition allValues :: "row list \<Rightarrow> param list \<Rightarrow> jsnum list" where
  "allValues data params = foldl (\<lambda>acc p. acc @ column data (name p)) [] params"

definition minY :: "row list \<Rightarrow> param list \<Rightarrow> jsnum" where
  "minY data params = Math_min (allValues data params)"

definition maxY :: "row list \<Rightarrow> param list \<Rightarrow> jsnum" where
  "maxY data params = Math_max (allValues data params)"

definition yRange :: "row list \<Rightarrow> param list \<Rightarrow> jsnum" where
  "yRange data params = js_or (js_sub (maxY data params) (minY data params)) (Fin 1)"

definition scaleY :: "row list \<Rightarrow> param list \<Rightarrow> jsnum \<Rightarrow> jsnum" where
  "scaleY data params v =
     js_sub chartHeight
       (js_mul (js_div (js_sub v (minY data params)) (yRange data params)) chartHeight)"

definition scaleX :: "row list \<Rightarrow> nat \<Rightarrow> jsnum" where
  "scaleX data i =
     js_mul (js_div (Fin (real i)) (js_or (Fin (real (length data) - 1)) (Fin 1))) chartWidth"

text \<open>The six ticks \<open>{ value, y }\<close> of the loop \<open>for (let i = 0; i <= tickCount; i++)\<close>.\<close>

definition yTicks :: "row list \<Rightarrow> param list \<Rightarrow> (jsnum \<times> jsnum) list" where
  "yTicks data params =
     map (\<lambda>i. let v = js_add (minY data params)
                        (js_div (js_mul (yRange data params) (Fin (real i))) (Fin (real tickCount)))
              in (v, scaleY data params v))
       [0..<tickCount + 1]"

definition gridLines :: "row list \<Rightarrow> param list \<Rightarrow> svg list" where
  "gridLines data params =
     map (\<lambda>tick. Line padding_left (js_add padding_top (snd tick))
                   (js_sub width padding_right) (js_add padding_top (snd tick))
                   ''#e5e7eb'' (Some ''4'') None)
       (yTicks data params)"

definition yAxis :: "row list \<Rightarrow> param list \<Rightarrow> svg list" where
  "yAxis data params =
     Line padding_left padding_top padding_left (js_sub height padding_bottom) ''#9ca3af'' None None
     # map (\<lambda>tick. Text (js_sub padding_left (Fin 10))
                     (js_add (js_add padding_top (snd tick)) (Fin 4)) ''end'' (Fixed1 (fst tick)))
         (yTicks data params)"

text \<open>
  The labels of the x-axis: the rows whose index is a multiple of
  \<open>Math.ceil(data.length / 10)\<close> are kept, and the \<open>i\<close>-th kept row is labelled at
  the index \<open>i * Math.ceil(data.length / 10)\<close>.
\<close>

definition xAxis :: "row list \<Rightarrow> svg list" where
  "xAxis data =
     (let stride = nat \<lceil>real (length data) / 10\<rceil>;
          kept = filter (\<lambda>i. i mod stride = 0) [0..<length data]
      in Line padding_left (js_sub height padding_bottom)
           (js_sub width padding_right) (js_sub height padding_bottom) ''#9ca3af'' None None
         # map (\<lambda>i. let idx = i * stride
                     in Text (js_add padding_left (scaleX data idx))
                          (js_add (js_sub height padding_bottom) (Fin 20)) ''middle''
                          (RowNumber (idx + 1)))
             [0..<length kept])"

text \<open>
  \<open>validPoints\<close>: one triple \<open>(x, y, valid)\<close> for each row, and those of them that
  are valid, each with its index in the filtered list.
\<close>

definition validPoints :: "row list \<Rightarrow> param list \<Rightarrow> param \<Rightarrow> (jsnum \<times> jsnum \<times> bool) list" where
  "validPoints data params p =
     map (\<lambda>(i, v). (scaleX data i, scaleY data params v, \<not> isNaN v))
       (enumerate 0 (map (\<lambda>row. parseFloat (row (name p))) data))"

definition filteredPoints :: "row list \<Rightarrow> param list \<Rightarrow> param \<Rightarrow> (nat \<times> jsnum \<times> jsnum \<times> bool) list" where
  "filteredPoints data params p =
     enumerate 0 (filter (\<lambda>pt. snd (snd pt)) (validPoints data params p))"

definition barWidth :: "row list \<Rightarrow> param list \<Rightarrow> jsnum" where
  "barWidth data params =
     js_mul (js_div (js_div chartWidth (Fin (real (length data)))) (Fin (real (length params))))
       (Fin (8 / 10))"

text \<open>
  The group drawn for the parameter at \<open>paramIndex\<close>, or nothing for a chart type
  that is none of the three.
\<close>

definition series :: "row list \<Rightarrow> param list \<Rightarrow> string \<Rightarrow> param \<Rightarrow> nat \<Rightarrow> svg list" where
  "series data params type p paramIndex =
     (let color = COLORS ! (paramIndex mod length COLORS);
          pts = filteredPoints data params p
      in if type = ''line'' then
           [G None
              (Path (map (\<lambda>(i, x, y, valid). (if i = 0 then M else L, x, y)) pts) color
               # map (\<lambda>(i, x, y, valid). Circle x y (Fin 4) color None) pts)]
         else if type = ''bar'' then
           (let offset = js_mul (Fin (real paramIndex)) (barWidth data params)
            in [G None
                  (map (\<lambda>(i, x, y, valid).
                          Rect (js_add
                                  (js_sub (scaleX data i)
                                     (js_div (js_mul (barWidth data params)
                                                (Fin (real (length params)))) (Fin 2)))
                                  offset)
                            y (barWidth data params) (js_sub chartHeight y) color (Fin (8 / 10)))
                     pts)])
         else if type = ''scatter'' then
           [G None (map (\<lambda>(i, x, y, valid). Circle x y (Fin 6) color (Some (Fin (7 / 10)))) pts)]
         else [])"

text \<open>
  The trend line of the parameter at index \<open>i\<close>: nothing when the parameter has no
  statistics or \<open>Math.abs(stats.trend) < 0.1\<close>.
\<close>

definition trendLine ::
  "row list \<Rightarrow> param list \<Rightarrow> (string \<rightharpoonup> stats option) \<Rightarrow> param \<Rightarrow> nat \<Rightarrow> svg list" where
  "trendLine data params sts p i =
     (case sts (name p) of
        None \<Rightarrow> []
      | Some None \<Rightarrow> []
      | Some (Some s) \<Rightarrow>
          if js_lt (Math_abs (trend_s s)) (Fin (1 / 10)) then []
          else
            (let color = COLORS ! (i mod length COLORS);
                 startY = js_sub (mean_s s)
                            (js_div (js_mul (trend_s s) (Fin (real (length data) - 1))) (Fin 2));
                 endY = js_add (mean_s s)
                          (js_div (js_mul (trend_s s) (Fin (real (length data) - 1))) (Fin 2))
             in [Line (Fin 0) (scaleY data params startY) chartWidth (scaleY data params endY)
                   color (Some ''8'') (Some (Fin (5 / 10)))]))"

definition trendLines ::
  "row list \<Rightarrow> param list \<Rightarrow> (string \<rightharpoonup> stats option) \<Rightarrow> string \<Rightarrow> svg list" where
  "trendLines data params sts type =
     (if type = ''line''
      then concat (map (\<lambda>(i, p). trendLine data params sts p i) (enumerate 0 params))
      else [])"

definition SVGChart ::
  "row list \<Rightarrow> param list \<Rightarrow> (string \<rightharpoonup> stats option) \<Rightarrow> string \<Rightarrow> element" where
  "SVGChart data params sts type =
     (if length data = 0 \<or> length params = 0 then Div ''No data to display''
      else Svg
        [G None (gridLines data params),
         G None (yAxis data params),
         G None (xAxis data),
         G (Some (padding_left, padding_top))
           (concat (map (\<lambda>(paramIndex, p). series data params type p paramIndex)
                      (enumerate 0 params))
            @ trendLines data params sts type)])"

text \<open>
  The chart of \<open>ChartsTab\<close>: \<open>SVGChart\<close> on the parameters whose names are selected,
  or a placeholder when nothing is selected.
\<close>

definition ChartsTab_chart ::
  "row list \<Rightarrow> param list \<Rightarrow> string list \<Rightarrow> (string \<rightharpoonup> stats option) \<Rightarrow> string \<Rightarrow> element" where
  "ChartsTab_chart data params selectedParams sts chartType =
     (if 0 < length selectedParams
      then SVGChart data (filter (\<lambda>p. name p \<in> set selectedParams) params) sts chartType
      else Div ''Select parameters to visualize'')"

section \<open>Notions of the specification\<close>

text \<open>\<open>isFinite\<close>: a number that is neither an infinity nor NaN.\<close>

fun isFinite :: "jsnum \<Rightarrow> bool" where
  "isFinite (Fin a) = True"
| "isFinite _ = False"


text \<open>
  A pair of names qualifies for a correlation entry when both have statistics and the
  shorter of their value sequences has at least two elements.
\<close>

definition qualifies :: "(string \<rightharpoonup> stats option) \<Rightarrow> string \<Rightarrow> string \<Rightarrow> bool" where
  "qualifies sts p1 p2 =
     (case sts p1 of
        Some (Some s1) \<Rightarrow>
          (case sts p2 of
             Some (Some s2) \<Rightarrow> 2 \<le> min (length (values_s s1)) (length (values_s s2))
           | _ \<Rightarrow> False)
      | _ \<Rightarrow> False)"


text \<open>
  The pairs of positions \<open>i < j\<close> of the parameter list whose names qualify, in the
  order of the two loops.
\<close>

definition qualifying_pairs :: "param list \<Rightarrow> (string \<rightharpoonup> stats option) \<Rightarrow> (nat \<times> nat) list" where
  "qualifying_pairs params sts =
     filter (\<lambda>(i, j). qualifies sts (map name params ! i) (map name params ! j))
       (concat (map (\<lambda>i. map (Pair i) [i + 1..<length params]) [0..<length params]))"

section \<open>Inputs of the worked examples\<close>

text \<open>The end-to-end scenario: two parameters and three rows.\<close>

definition scenario_params :: "param list" where
  "scenario_params =
     [\<lparr>name = ''Temp'', unit = Some ''C''\<rparr>, \<lparr>name = ''Yield'', unit = Some ''%''\<rparr>]"

definition scenario_rows :: "row list" where
  "scenario_rows =
     [[''Temp'' \<mapsto> JStr ''20'', ''Yield'' \<mapsto> JStr ''50''],
      [''Temp'' \<mapsto> JStr ''25'', ''Yield'' \<mapsto> JStr ''55''],
      [''Temp'' \<mapsto> JStr ''30'', ''Yield'' \<mapsto> JStr ''60'']]"

text \<open>One parameter \<open>x\<close>; rows with a cell that is no number; rows with infinite cells.\<close>

definition x_param :: "param list" where
  "x_param = [\<lparr>name = ''x'', unit = None\<rparr>]"

definition mixed_rows :: "row list" where
  "mixed_rows = [[''x'' \<mapsto> JStr ''5''], [''x'' \<mapsto> JStr ''abc''], [''x'' \<mapsto> JStr ''7'']]"

definition infinity_rows :: "row list" where
  "infinity_rows = [[''x'' \<mapsto> JStr ''Infinity''], [''x'' \<mapsto> JStr ''-Infinity'']]"


text \<open>
  Two parameters of which \<open>A\<close> has eight values and \<open>B\<close> only the first two.
\<close>

definition uneven_params :: "param list" where
  "uneven_params = [\<lparr>name = ''A'', unit = None\<rparr>, \<lparr>name = ''B'', unit = None\<rparr>]"

definition uneven_rows :: "row list" where
  "uneven_rows =
     [[''A'' \<mapsto> JStr ''10'', ''B'' \<mapsto> JStr ''10''],
      [''A'' \<mapsto> JStr ''-10'', ''B'' \<mapsto> JStr ''-10''],
      [''A'' \<mapsto> JStr ''0''], [''A'' \<mapsto> JStr ''0''], [''A'' \<mapsto> JStr ''0''],
      [''A'' \<mapsto> JStr ''0''], [''A'' \<mapsto> JStr ''0''], [''A'' \<mapsto> JStr ''0'']]"

text \<open>
  Three parameters of which \<open>A\<close> has one value and \<open>B\<close> and \<open>C\<close> have five.
\<close>

definition short_params :: "param list" where
  "short_params =
     [\<lparr>name = ''A'', unit = None\<rparr>, \<lparr>name = ''B'', unit = None\<rparr>, \<lparr>name = ''C'', unit = None\<rparr>]"

definition short_rows :: "row list" where
  "short_rows =
     [[''A'' \<mapsto> JStr ''1'', ''B'' \<mapsto> JStr ''1'', ''C'' \<mapsto> JStr ''1''],
      [''B'' \<mapsto> JStr ''2'', ''C'' \<mapsto> JStr ''2''],
      [''B'' \<mapsto> JStr ''3'', ''C'' \<mapsto> JStr ''3''],
      [''B'' \<mapsto> JStr ''4'', ''C'' \<mapsto> JStr ''4''],
      [''B'' \<mapsto> JStr ''5'', ''C'' \<mapsto> JStr ''5'']]"

text \<open>Four parameters with hyphens in their names, and two rows.\<close>

definition hyphen_params :: "param list" where
  "hyphen_params =
     [\<lparr>name = ''a'', unit = None\<rparr>, \<lparr>name = ''b-c'', unit = None\<rparr>,
      \<lparr>name = ''a-b'', unit = None\<rparr>, \<lparr>name = ''c'', unit = None\<rparr>]"

definition hyphen_rows :: "row list" where
  "hyphen_rows =
     [[''a'' \<mapsto> JStr ''0'', ''b-c'' \<mapsto> JStr ''0'', ''a-b'' \<mapsto> JStr ''0'', ''c'' \<mapsto> JStr ''2''],
      [''a'' \<mapsto> JStr ''2'', ''b-c'' \<mapsto> JStr ''2'', ''a-b'' \<mapsto> JStr ''2'', ''c'' \<mapsto> JStr ''0'']]"



definition xy_params :: "param list" where
  "xy_params = [\<lparr>name = ''x'', unit = None\<rparr>, \<lparr>name = ''y'', unit = None\<rparr>]"

definition bar_rows :: "row list" where
  "bar_rows = [[''x'' \<mapsto> JStr ''abc'', ''y'' \<mapsto> JStr ''1''], [''x'' \<mapsto> JStr ''5'', ''y'' \<mapsto> JStr ''3'']]"

section \<open>Evaluation\<close>

lemma not_overflows: "x \<le> 2 ^ 64 \<Longrightarrow> overflows x = False"
proof -
  assume "x \<le> 2 ^ 64"
  moreover have "(2::real) ^ 64 < 2 ^ 1024 - 2 ^ 970" by simp
  ultimately have "x < 2 ^ 1024 - 2 ^ 970" by (rule le_less_trans)
  then show "overflows x = False" by (simp add: overflows_def)
qed

lemmas parse_defs = parseFloat_string_def is_space_def is_space2_def is_space3_def is_digit_def
  digits_val_def exponent_def not_overflows

text \<open>
  Cells as \<open>parseFloat\<close> reads them: a prefix that is a literal, white space of one,
  two and three bytes before it, a literal beyond the largest double, and no literal.
\<close>

lemma parseFloat_examples:
  "parseFloat_string '' -1.5e-2x'' = Fin (- (15 / 1000))"
  "parseFloat_string [CHR 0xC2, CHR 0xA0, CHR 0x09, CHR 0xEF, CHR 0xBB, CHR 0xBF, CHR ''7''] = Fin 7"
  "parseFloat_string ''abc'' = NaN"
  "parseFloat_string ''-Infinity'' = NInf"
  by (simp_all add: parse_defs)

lemma parseFloat_overflow: "parseFloat_string ''1e400'' = PInf"
  by (simp add: parseFloat_string_def is_space_def is_space2_def is_space3_def is_digit_def
      digits_val_def exponent_def overflows_def)

lemmas stats_defs = stats_of_def mean_def median_def js_sort_def js_sub_def js_nth_def
  Math_min_def Math_max_def min2_def max2_def variance_def stdDev_def cv_def trend_def
  trend_step_def js_eq_def upt_rec

lemmas corr_defs = correlation_def pearson_sum_def js_nth_def js_sub_def js_gt_def upt_rec
  strength_of_def

section \<open>The end-to-end scenario\<close>

lemma scenario_Temp: "column scenario_rows ''Temp'' = [Fin 20, Fin 25, Fin 30]"
  by (simp add: column_def scenario_rows_def parse_defs)

lemma scenario_Yield: "column scenario_rows ''Yield'' = [Fin 50, Fin 55, Fin 60]"
  by (simp add: column_def scenario_rows_def parse_defs)

lemma scenario_statistics:
  "statistics scenario_params scenario_rows =
     [''Temp'' \<mapsto> Some (stats_of [Fin 20, Fin 25, Fin 30]),
      ''Yield'' \<mapsto> Some (stats_of [Fin 50, Fin 55, Fin 60])]"
  by (simp add: statistics_def scenario_params_def scenario_Temp scenario_Yield)

lemma sqrt_50_3_bounds: "4075 / 1000 < sqrt (50 / 3) \<and> sqrt (50 / 3) < 4085 / 1000"
proof
  show "4075 / 1000 < sqrt (50 / 3)"
    by (rule real_less_rsqrt) (simp add: power2_eq_square)
  show "sqrt (50 / 3) < 4085 / 1000"
    by (rule real_less_lsqrt) (simp_all add: power2_eq_square)
qed

lemma sqrt_50_3_square: "3 * sqrt (50 / 3) * sqrt (50 / 3) = 50"
  by (simp add: mult.assoc)

lemma scenario_Temp_stats:
  "stats_of [Fin 20, Fin 25, Fin 30] =
     \<lparr> n_s = 3, mean_s = Fin 25, median_s = Fin 25, min_s = Fin 20, max_s = Fin 30,
       range_s = Fin 10, variance_s = Fin (50 / 3), stdDev_s = Fin (sqrt (50 / 3)),
       cv_s = Fin (sqrt (50 / 3) / 25 * 100), trend_s = Fin 5,
       values_s = [Fin 20, Fin 25, Fin 30] \<rparr>"
  by (simp add: stats_defs)

lemma scenario_Yield_stats:
  "stats_of [Fin 50, Fin 55, Fin 60] =
     \<lparr> n_s = 3, mean_s = Fin 55, median_s = Fin 55, min_s = Fin 50, max_s = Fin 60,
       range_s = Fin 10, variance_s = Fin (50 / 3), stdDev_s = Fin (sqrt (50 / 3)),
       cv_s = Fin (sqrt (50 / 3) / 55 * 100), trend_s = Fin 5,
       values_s = [Fin 50, Fin 55, Fin 60] \<rparr>"
  by (simp add: stats_defs)

lemma scenario_correlations:
  "correlations scenario_params (statistics scenario_params scenario_rows) =
     [(''Temp-Yield'',
       \<lparr> param1 = ''Temp'', param2 = ''Yield'', value_c = Fin 1, strength = ''strong'' \<rparr>)]"
  unfolding scenario_statistics
  apply (simp add: correlations_def scenario_params_def corr_step_def upt_rec
      scenario_Temp_stats scenario_Yield_stats)
  apply (simp add: corr_defs sqrt_50_3_square)
  done

text \<open>
  Claim C2. For the parameters Temp and Yield and the rows (20, 50), (25, 55), (30, 60),
  the statistics of Temp are n = 3, mean 25, median 25, min 20, max 30, range 10,
  a standard deviation of \<open>sqrt (50 / 3)\<close>, which is 4.08 to two decimals, a coefficient
  of variation of \<open>sqrt (50 / 3) / 25 * 100\<close>, which is 16.3 to one decimal, and trend 5;
  those of Yield are the same around the mean 55, with trend 5; and the correlations
  hold the one entry Temp-Yield, with value 1 and strength strong.
\<close>

theorem end_to_end_scenario:
  "statistics scenario_params scenario_rows ''Temp'' =
     Some (Some
       \<lparr> n_s = 3, mean_s = Fin 25, median_s = Fin 25, min_s = Fin 20, max_s = Fin 30,
         range_s = Fin 10, variance_s = Fin (50 / 3), stdDev_s = Fin (sqrt (50 / 3)),
         cv_s = Fin (sqrt (50 / 3) / 25 * 100), trend_s = Fin 5,
         values_s = [Fin 20, Fin 25, Fin 30] \<rparr>)
   \<and> statistics scenario_params scenario_rows ''Yield'' =
     Some (Some
       \<lparr> n_s = 3, mean_s = Fin 55, median_s = Fin 55, min_s = Fin 50, max_s = Fin 60,
         range_s = Fin 10, variance_s = Fin (50 / 3), stdDev_s = Fin (sqrt (50 / 3)),
         cv_s = Fin (sqrt (50 / 3) / 55 * 100), trend_s = Fin 5,
         values_s = [Fin 50, Fin 55, Fin 60] \<rparr>)
   \<and> \<bar>sqrt (50 / 3) - 408 / 100\<bar> < 5 / 1000
   \<and> \<bar>sqrt (50 / 3) / 25 * 100 - 163 / 10\<bar> < 5 / 100
   \<and> correlations scenario_params (statistics scenario_params scenario_rows) =
     [(''Temp-Yield'',
       \<lparr> param1 = ''Temp'', param2 = ''Yield'', value_c = Fin 1, strength = ''strong'' \<rparr>)]"
proof (intro conjI)
  show "statistics scenario_params scenario_rows ''Temp'' =
     Some (Some
       \<lparr> n_s = 3, mean_s = Fin 25, median_s = Fin 25, min_s = Fin 20, max_s = Fin 30,
         range_s = Fin 10, variance_s = Fin (50 / 3), stdDev_s = Fin (sqrt (50 / 3)),
         cv_s = Fin (sqrt (50 / 3) / 25 * 100), trend_s = Fin 5,
         values_s = [Fin 20, Fin 25, Fin 30] \<rparr>)"
    by (simp add: scenario_statistics scenario_Temp_stats)
  show "statistics scenario_params scenario_rows ''Yield'' =
     Some (Some
       \<lparr> n_s = 3, mean_s = Fin 55, median_s = Fin 55, min_s = Fin 50, max_s = Fin 60,
         range_s = Fin 10, variance_s = Fin (50 / 3), stdDev_s = Fin (sqrt (50 / 3)),
         cv_s = Fin (sqrt (50 / 3) / 55 * 100), trend_s = Fin 5,
         values_s = [Fin 50, Fin 55, Fin 60] \<rparr>)"
    by (simp add: scenario_statistics scenario_Yield_stats)
  show "\<bar>sqrt (50 / 3) - 408 / 100\<bar> < 5 / 1000"
    using sqrt_50_3_bounds by linarith
  show "\<bar>sqrt (50 / 3) / 25 * 100 - 163 / 10\<bar> < 5 / 100"
    using sqrt_50_3_bounds by linarith
  show "correlations scenario_params (statistics scenario_params scenario_rows) =
     [(''Temp-Yield'',
       \<lparr> param1 = ''Temp'', param2 = ''Yield'', value_c = Fin 1, strength = ''strong'' \<rparr>)]"
    by (rule scenario_correlations)
qed

section \<open>The empty state of the chart\<close>

text \<open>
  Claim C7. When the row list is empty or no parameter is selected, the chart is a
  placeholder and no scene: \<open>SVGChart\<close> returns its placeholder for an empty row list
  or an empty parameter list, and the chart of \<open>ChartsTab\<close> is one of the two
  placeholders for an empty row list or an empty selection.
\<close>

theorem empty_state_placeholder:
  "(data = [] \<or> params = [] \<longrightarrow> SVGChart data params sts type = Div ''No data to display'')
   \<and> (data = [] \<or> selectedParams = [] \<longrightarrow>
        ChartsTab_chart data params selectedParams sts type = Div ''No data to display''
        \<or> ChartsTab_chart data params selectedParams sts type
            = Div ''Select parameters to visualize'')"
  by (auto simp: SVGChart_def ChartsTab_chart_def)

theorem empty_state_placeholder_witness:
  "SVGChart [] [\<lparr>name = ''x'', unit = None\<rparr>] Map.empty ''line'' = Div ''No data to display''
   \<and> ChartsTab_chart [[''x'' \<mapsto> JStr ''5'']] [\<lparr>name = ''x'', unit = None\<rparr>] [] Map.empty ''bar''
       = Div ''Select parameters to visualize''"
  using empty_state_placeholder [of "[]" "[\<lparr>name = ''x'', unit = None\<rparr>]" Map.empty "''line''" "[]"]
    empty_state_placeholder [of "[[''x'' \<mapsto> JStr ''5'']]" "[\<lparr>name = ''x'', unit = None\<rparr>]" Map.empty "''bar''" "[]"]
  by (simp add: ChartsTab_chart_def)

section \<open>Lookup in the statistics\<close>

lemma foldl_upd_lookup:
  "foldl (\<lambda>st p. st(name p \<mapsto> f (name p))) m ps k =
     (if k \<in> name ` set ps then Some (f k) else m k)"
  by (induction ps arbitrary: m) auto

lemma statistics_lookup:
  "statistics params data k =
     (if k \<in> name ` set params
      then Some (if column data k = [] then None else Some (stats_of (column data k)))
      else None)"
  unfolding statistics_def Let_def
  using foldl_upd_lookup [of "\<lambda>nm. if length (column data nm) = 0 then None else Some (stats_of (column data nm))" Map.empty params k]
  by simp

lemma column_length: "length (column data nm) = length (filter (\<lambda>row. \<not> isNaN (parseFloat (row nm))) data)"
  unfolding column_def by (induction data) auto

lemma not_NaN_iff: "\<not> isNaN v \<longleftrightarrow> isFinite v \<or> v = PInf \<or> v = NInf"
  by (cases v) auto

section \<open>Statistics of finite values\<close>


lemma foldl_add_Fin: "foldl js_add (Fin a) (map Fin xs) = Fin (a + sum_list xs)"
  by (induction xs arbitrary: a) (auto simp: add.assoc)

lemma mean_Fin: "xs \<noteq> [] \<Longrightarrow> mean (map Fin xs) = Fin (sum_list xs / real (length xs))"
  by (simp add: mean_def foldl_add_Fin)


















section \<open>Entries of the correlations\<close>

lemma set_update_subset: "set (AList.update k v al) \<subseteq> insert (k, v) (set al)"
  by (induction al) auto

lemma foldl_invariant:
  assumes "P a" and "\<And>b x. P b \<Longrightarrow> P (f b x)"
  shows "P (foldl f a xs)"
  using assms(1)
proof (induction xs arbitrary: a)
  case Nil
  then show ?case by simp
next
  case (Cons x xs)
  have "P (f a x)" using Cons.prems by (rule assms(2))
  then have "P (foldl f (f a x) xs)" by (rule Cons.IH)
  then show ?case by simp
qed

lemma corr_step_cases:
  obtains (skip) "\<not> qualifies sts p1 p2" and "corr_step sts corrs p1 p2 = corrs"
  | (store) s1 s2 where "qualifies sts p1 p2" and "sts p1 = Some (Some s1)"
      and "sts p2 = Some (Some s2)"
      and "corr_step sts corrs p1 p2 =
        AList.update (p1 @ ''-'' @ p2)
          \<lparr> param1 = p1, param2 = p2, value_c = correlation s1 s2,
            strength = strength_of (correlation s1 s2) \<rparr> corrs"
proof (cases "sts p1")
  case None
  then show ?thesis by (intro skip) (simp_all add: qualifies_def corr_step_def)
next
  case o1: (Some o1)
  show ?thesis
  proof (cases o1)
    case None
    with o1 show ?thesis by (intro skip) (simp_all add: qualifies_def corr_step_def)
  next
    case s1: (Some s1)
    show ?thesis
    proof (cases "sts p2")
      case None
      with o1 s1 show ?thesis by (intro skip) (simp_all add: qualifies_def corr_step_def)
    next
      case o2: (Some o2)
      show ?thesis
      proof (cases o2)
        case None
        with o1 s1 o2 show ?thesis by (intro skip) (simp_all add: qualifies_def corr_step_def)
      next
        case s2: (Some s2)
        show ?thesis
        proof (cases "min (length (values_s s1)) (length (values_s s2)) < 2")
          case True
          with o1 s1 o2 s2 show ?thesis
            by (intro skip) (auto simp add: qualifies_def corr_step_def min_less_iff_disj)
        next
          case False
          with o1 s1 o2 s2 show ?thesis
            by (intro store [of s1 s2]) (auto simp add: qualifies_def corr_step_def min_less_iff_disj)
        qed
      qed
    qed
  qed
qed

lemma corr_step_qualifies:
  assumes "\<forall>ke\<in>set corrs. qualifies sts (param1 (snd ke)) (param2 (snd ke))"
  shows "\<forall>ke\<in>set (corr_step sts corrs p1 p2). qualifies sts (param1 (snd ke)) (param2 (snd ke))"
proof (cases rule: corr_step_cases [of sts p1 p2 corrs])
  case skip
  then show ?thesis using assms by simp
next
  case (store s1 s2)
  let ?e = "\<lparr> param1 = p1, param2 = p2, value_c = correlation s1 s2,
              strength = strength_of (correlation s1 s2) \<rparr>"
  have q: "qualifies sts (param1 ?e) (param2 ?e)" using store(1) by simp
  show ?thesis
  proof
    fix ke
    assume "ke \<in> set (corr_step sts corrs p1 p2)"
    then have "ke \<in> set (AList.update (p1 @ ''-'' @ p2) ?e corrs)"
      by (simp only: store(4))
    then have "ke \<in> insert (p1 @ ''-'' @ p2, ?e) (set corrs)"
      by (rule subsetD [OF set_update_subset])
    then have "ke = (p1 @ ''-'' @ p2, ?e) \<or> ke \<in> set corrs"
      by (simp only: insert_iff)
    then show "qualifies sts (param1 (snd ke)) (param2 (snd ke))"
    proof
      assume "ke = (p1 @ ''-'' @ p2, ?e)"
      then have "snd ke = ?e" by (simp only: snd_conv)
      then show ?thesis using q by (simp only:)
    next
      assume "ke \<in> set corrs"
      then show ?thesis using assms by (rule_tac bspec)
    qed
  qed
qed

lemma correlations_qualify:
  "\<forall>ke\<in>set (correlations params sts). qualifies sts (param1 (snd ke)) (param2 (snd ke))"
proof -
  let ?P = "\<lambda>corrs :: (string \<times> corr) list. \<forall>ke\<in>set corrs. qualifies sts (param1 (snd ke)) (param2 (snd ke))"
  have inner: "?P (foldl (\<lambda>corrs j. corr_step sts corrs p (f j)) corrs js)" if "?P corrs"
    for corrs p js and f :: "nat \<Rightarrow> string"
  proof (rule foldl_invariant [of ?P, OF that])
    fix b x
    assume "?P b"
    then show "?P (corr_step sts b p (f x))" by (rule corr_step_qualifies)
  qed
  show ?thesis
    unfolding correlations_def Let_def
  proof (rule foldl_invariant [of ?P])
    show "?P []" by simp
  next
    fix b i
    assume "?P b"
    then show "?P (foldl (\<lambda>corrs j. corr_step sts corrs (map name params ! i) (map name params ! j))
                    b [i + 1..<length (map name params)])"
      by (rule inner)
  qed
qed


section \<open>The trend of finite values\<close>







section \<open>Which cells enter the statistics\<close>

lemma mixed_column: "column mixed_rows ''x'' = [Fin 5, Fin 7]"
  by (simp add: column_def mixed_rows_def parse_defs)

lemma infinity_column: "column infinity_rows ''x'' = [PInf, NInf]"
  by (simp add: column_def infinity_rows_def parse_defs)

lemma mixed_statistics:
  "statistics x_param mixed_rows = [''x'' \<mapsto> Some (stats_of [Fin 5, Fin 7])]"
  by (simp add: statistics_def x_param_def mixed_column)

lemma infinity_statistics:
  "statistics x_param infinity_rows = [''x'' \<mapsto> Some (stats_of [PInf, NInf])]"
  by (simp add: statistics_def x_param_def infinity_column)

lemma column_filter:
  "column data nm =
     filter (\<lambda>v. isFinite v \<or> v = PInf \<or> v = NInf) (map (\<lambda>row. parseFloat (row nm)) data)"
  unfolding column_def by (rule filter_cong) (simp_all add: not_NaN_iff)

text \<open>
  Claim C3 as stated fails: the cell \<open>Infinity\<close> parses as the number \<open>Infinity\<close>,
  which is not NaN: it stays in \<open>values\<close> and counts in \<open>n\<close>, although it is no
  finite number.
\<close>

theorem statistics_counterexample:
  "map (\<lambda>row. parseFloat (row ''x'')) infinity_rows = [PInf, NInf]
   \<and> filter isFinite (map (\<lambda>row. parseFloat (row ''x'')) infinity_rows) = []
   \<and> map_option (map_option values_s) (statistics x_param infinity_rows ''x'')
       = Some (Some [PInf, NInf])
   \<and> map_option (map_option n_s) (statistics x_param infinity_rows ''x'') = Some (Some 2)"
  by (simp add: infinity_statistics stats_of_def) (simp add: infinity_rows_def parse_defs)

text \<open>
  Claim C3, amended. The values of a parameter are the cells, in row order, whose
  parse is not NaN, that is a finite number or one of the two infinities; the entry
  of the parameter is \<open>null\<close> when there is no such cell, and otherwise the
  statistics of these values, with \<open>n\<close> their number. For the rows 5, abc, 7 the
  statistics of \<open>x\<close> have n = 2 and mean 6.
\<close>

theorem statistics_values_not_NaN:
  "(p \<in> set params \<longrightarrow>
      statistics params data (name p) =
        Some (if filter (\<lambda>v. isFinite v \<or> v = PInf \<or> v = NInf)
                   (map (\<lambda>row. parseFloat (row (name p))) data) = []
              then None
              else Some (stats_of (filter (\<lambda>v. isFinite v \<or> v = PInf \<or> v = NInf)
                                     (map (\<lambda>row. parseFloat (row (name p))) data)))))
   \<and> values_s (stats_of vs) = vs \<and> n_s (stats_of vs) = length vs
   \<and> map_option (map_option n_s) (statistics x_param mixed_rows ''x'') = Some (Some 2)
   \<and> map_option (map_option mean_s) (statistics x_param mixed_rows ''x'') = Some (Some (Fin 6))"
proof (intro conjI impI)
  assume "p \<in> set params"
  then show "statistics params data (name p) =
        Some (if filter (\<lambda>v. isFinite v \<or> v = PInf \<or> v = NInf)
                   (map (\<lambda>row. parseFloat (row (name p))) data) = []
              then None
              else Some (stats_of (filter (\<lambda>v. isFinite v \<or> v = PInf \<or> v = NInf)
                                     (map (\<lambda>row. parseFloat (row (name p))) data))))"
    by (simp add: statistics_lookup column_filter [symmetric])
qed (simp_all add: stats_of_def mixed_statistics mean_def)

theorem statistics_values_not_NaN_witness:
  "\<lparr>name = ''x'', unit = None\<rparr> \<in> set x_param
   \<and> statistics x_param infinity_rows ''x'' = Some (Some (stats_of [PInf, NInf]))"
  using statistics_values_not_NaN [of "\<lparr>name = ''x'', unit = None\<rparr>" x_param infinity_rows "[]"]
  by (simp add: x_param_def infinity_rows_def parse_defs)

section \<open>Median and mean between minimum and maximum\<close>
















section \<open>Pairs with too few values\<close>

lemma short_A: "column short_rows ''A'' = [Fin 1]"
  by (simp add: column_def short_rows_def parse_defs)

lemma short_B: "column short_rows ''B'' = [Fin 1, Fin 2, Fin 3, Fin 4, Fin 5]"
  by (simp add: column_def short_rows_def parse_defs)

lemma short_C: "column short_rows ''C'' = [Fin 1, Fin 2, Fin 3, Fin 4, Fin 5]"
  by (simp add: column_def short_rows_def parse_defs)

lemma short_statistics:
  "statistics short_params short_rows =
     [''A'' \<mapsto> Some (stats_of [Fin 1]),
      ''B'' \<mapsto> Some (stats_of [Fin 1, Fin 2, Fin 3, Fin 4, Fin 5]),
      ''C'' \<mapsto> Some (stats_of [Fin 1, Fin 2, Fin 3, Fin 4, Fin 5])]"
  by (simp add: statistics_def short_params_def short_A short_B short_C)

lemma short_correlations:
  "map fst (correlations short_params (statistics short_params short_rows)) = [''B-C'']"
  unfolding short_statistics
  by (simp add: correlations_def short_params_def corr_step_def upt_rec stats_of_def)

text \<open>
  Claim C6. When two names both have statistics and the shorter of their value
  sequences has fewer than two elements, no entry of the correlations is for this
  pair, in either order. With one value for \<open>A\<close> and five for \<open>B\<close> and \<open>C\<close>, the
  only entry is that of \<open>B\<close> and \<open>C\<close>.
\<close>

theorem insufficient_pair_omitted:
  assumes "sts a = Some (Some sa)" and "sts b = Some (Some sb)"
    and "min (length (values_s sa)) (length (values_s sb)) < 2"
  shows "list_all (\<lambda>ke. (param1 (snd ke), param2 (snd ke)) \<noteq> (a, b)
                       \<and> (param1 (snd ke), param2 (snd ke)) \<noteq> (b, a))
           (correlations params sts)"
proof -
  have "\<not> qualifies sts a b" "\<not> qualifies sts b a"
    using assms by (auto simp add: qualifies_def min_less_iff_disj)
  then have nq: "qualifies sts p1 p2 \<Longrightarrow> (p1, p2) \<noteq> (a, b) \<and> (p1, p2) \<noteq> (b, a)" for p1 p2
    by blast
  show ?thesis
    unfolding list_all_iff
  proof
    fix ke
    assume "ke \<in> set (correlations params sts)"
    then have "qualifies sts (param1 (snd ke)) (param2 (snd ke))"
      using correlations_qualify by blast
    then show "(param1 (snd ke), param2 (snd ke)) \<noteq> (a, b)
                \<and> (param1 (snd ke), param2 (snd ke)) \<noteq> (b, a)"
      by (rule nq)
  qed
qed

theorem insufficient_pair_omitted_witness:
  "statistics short_params short_rows ''A'' = Some (Some (stats_of [Fin 1]))
   \<and> statistics short_params short_rows ''B'' = Some (Some (stats_of [Fin 1, Fin 2, Fin 3, Fin 4, Fin 5]))
   \<and> length (values_s (stats_of [Fin 1])) = 1
   \<and> length (values_s (stats_of [Fin 1, Fin 2, Fin 3, Fin 4, Fin 5])) = 5
   \<and> list_all (\<lambda>ke. (param1 (snd ke), param2 (snd ke)) \<noteq> (''A'', ''B'')
                    \<and> (param1 (snd ke), param2 (snd ke)) \<noteq> (''B'', ''A''))
        (correlations short_params (statistics short_params short_rows))
   \<and> map fst (correlations short_params (statistics short_params short_rows)) = [''B-C'']"
proof -
  have a: "statistics short_params short_rows ''A'' = Some (Some (stats_of [Fin 1]))"
    and b: "statistics short_params short_rows ''B'' = Some (Some (stats_of [Fin 1, Fin 2, Fin 3, Fin 4, Fin 5]))"
    by (simp_all add: short_statistics)
  have m: "min (length (values_s (stats_of [Fin 1]))) (length (values_s (stats_of [Fin 1, Fin 2, Fin 3, Fin 4, Fin 5]))) < 2"
    by (simp add: stats_of_def)
  show ?thesis
    using insufficient_pair_omitted [OF a b m, of short_params] a b short_correlations
    by (simp add: stats_of_def)
qed

section \<open>The trend as a least-squares slope\<close>














section \<open>Keys of the correlations\<close>

lemma hyphen_columns:
  "column hyphen_rows ''a'' = [Fin 0, Fin 2]"
  "column hyphen_rows ''b-c'' = [Fin 0, Fin 2]"
  "column hyphen_rows ''a-b'' = [Fin 0, Fin 2]"
  "column hyphen_rows ''c'' = [Fin 2, Fin 0]"
  by (simp_all add: column_def hyphen_rows_def parse_defs)

lemma hyphen_statistics:
  "statistics hyphen_params hyphen_rows =
     [''a'' \<mapsto> Some (stats_of [Fin 0, Fin 2]), ''b-c'' \<mapsto> Some (stats_of [Fin 0, Fin 2]),
      ''a-b'' \<mapsto> Some (stats_of [Fin 0, Fin 2]), ''c'' \<mapsto> Some (stats_of [Fin 2, Fin 0])]"
  by (simp add: statistics_def hyphen_params_def hyphen_columns)

lemma up_stats:
  "mean_s (stats_of [Fin 0, Fin 2]) = Fin 1" "stdDev_s (stats_of [Fin 0, Fin 2]) = Fin 1"
  "values_s (stats_of [Fin 0, Fin 2]) = [Fin 0, Fin 2]"
  by (simp_all add: stats_of_def mean_def stdDev_def variance_def js_sub_def)

lemma down_stats:
  "mean_s (stats_of [Fin 2, Fin 0]) = Fin 1" "stdDev_s (stats_of [Fin 2, Fin 0]) = Fin 1"
  "values_s (stats_of [Fin 2, Fin 0]) = [Fin 2, Fin 0]"
  by (simp_all add: stats_of_def mean_def stdDev_def variance_def js_sub_def)

lemma hyphen_corrs:
  "correlation (stats_of [Fin 0, Fin 2]) (stats_of [Fin 0, Fin 2]) = Fin 1"
  "correlation (stats_of [Fin 0, Fin 2]) (stats_of [Fin 2, Fin 0]) = Fin (- 1)"
  by (simp_all add: corr_defs up_stats down_stats)

lemma hyphen_qualifying:
  "qualifying_pairs hyphen_params (statistics hyphen_params hyphen_rows) =
     [(0, 1), (0, 2), (0, 3), (1, 2), (1, 3), (2, 3)]"
  unfolding hyphen_statistics
  by (simp add: qualifying_pairs_def hyphen_params_def qualifies_def upt_rec up_stats down_stats)

lemma hyphen_correlations:
  "correlations hyphen_params (statistics hyphen_params hyphen_rows) =
     [(''a-b-c'', \<lparr> param1 = ''a-b'', param2 = ''c'', value_c = Fin (- 1), strength = ''strong'' \<rparr>),
      (''a-a-b'', \<lparr> param1 = ''a'', param2 = ''a-b'', value_c = Fin 1, strength = ''strong'' \<rparr>),
      (''a-c'', \<lparr> param1 = ''a'', param2 = ''c'', value_c = Fin (- 1), strength = ''strong'' \<rparr>),
      (''b-c-a-b'', \<lparr> param1 = ''b-c'', param2 = ''a-b'', value_c = Fin 1, strength = ''strong'' \<rparr>),
      (''b-c-c'', \<lparr> param1 = ''b-c'', param2 = ''c'', value_c = Fin (- 1), strength = ''strong'' \<rparr>)]"
  unfolding hyphen_statistics
  by (simp add: correlations_def hyphen_params_def corr_step_def upt_rec up_stats down_stats
      hyphen_corrs strength_of_def js_gt_def)

text \<open>
  Claim C10. For the parameters \<open>a\<close>, \<open>b-c\<close>, \<open>a-b\<close>, \<open>c\<close> the distinct pairs
  \<open>(a, b-c)\<close> and \<open>(a-b, c)\<close> have the same key \<open>a-b-c\<close>; all six pairs qualify, the
  correlations hold five entries, and the entry at \<open>a-b-c\<close> is that of the later pair
  \<open>(a-b, c)\<close>, with value -1, in place of that of \<open>(a, b-c)\<close>, with value 1.
\<close>

theorem hyphen_keys_collide:
  "''a'' @ ''-'' @ ''b-c'' = ''a-b'' @ ''-'' @ ''c''
   \<and> (''a'', ''b-c'') \<noteq> (''a-b'', ''c'')
   \<and> qualifying_pairs hyphen_params (statistics hyphen_params hyphen_rows) =
       [(0, 1), (0, 2), (0, 3), (1, 2), (1, 3), (2, 3)]
   \<and> length (correlations hyphen_params (statistics hyphen_params hyphen_rows)) = 5
   \<and> correlation (stats_of (column hyphen_rows ''a'')) (stats_of (column hyphen_rows ''b-c'')) = Fin 1
   \<and> correlations hyphen_params (statistics hyphen_params hyphen_rows) =
     [(''a-b-c'', \<lparr> param1 = ''a-b'', param2 = ''c'', value_c = Fin (- 1), strength = ''strong'' \<rparr>),
      (''a-a-b'', \<lparr> param1 = ''a'', param2 = ''a-b'', value_c = Fin 1, strength = ''strong'' \<rparr>),
      (''a-c'', \<lparr> param1 = ''a'', param2 = ''c'', value_c = Fin (- 1), strength = ''strong'' \<rparr>),
      (''b-c-a-b'', \<lparr> param1 = ''b-c'', param2 = ''a-b'', value_c = Fin 1, strength = ''strong'' \<rparr>),
      (''b-c-c'', \<lparr> param1 = ''b-c'', param2 = ''c'', value_c = Fin (- 1), strength = ''strong'' \<rparr>)]"
  by (simp add: hyphen_qualifying hyphen_correlations hyphen_columns hyphen_corrs)

section \<open>Correlation of sequences of the same length\<close>

text \<open>
  When the two value sequences are finite and of the same length, the sum runs over all
  pairs, and by the Cauchy-Schwarz inequality the value lies between -1 and 1. This is a
  statement of exact arithmetic: with rounding, the value of the code can exceed 1 in
  the last digit.
\<close>

lemma cauchy_schwarz_sum:
  fixes a b :: "nat \<Rightarrow> real"
  shows "(\<Sum>k<n. a k * b k)\<^sup>2 \<le> (\<Sum>k<n. (a k)\<^sup>2) * (\<Sum>k<n. (b k)\<^sup>2)"
proof -
  let ?A = "\<Sum>k<n. (a k)\<^sup>2" and ?B = "\<Sum>k<n. (b k)\<^sup>2" and ?C = "\<Sum>k<n. a k * b k"
  have quad: "0 \<le> t\<^sup>2 * ?A - 2 * t * ?C + ?B" for t
  proof -
    have "0 \<le> (\<Sum>k<n. (t * a k - b k)\<^sup>2)" by (rule sum_nonneg) simp
    also have "(\<Sum>k<n. (t * a k - b k)\<^sup>2) =
        (\<Sum>k<n. t\<^sup>2 * (a k)\<^sup>2 - 2 * t * (a k * b k) + (b k)\<^sup>2)"
      by (rule sum.cong) (simp_all add: power2_eq_square algebra_simps)
    also have "\<dots> = t\<^sup>2 * ?A - 2 * t * ?C + ?B"
      by (simp add: sum.distrib sum_subtractf sum_distrib_left)
    finally show ?thesis .
  qed
  have A: "0 \<le> ?A" by (rule sum_nonneg) simp
  show ?thesis
  proof (cases "?A = 0")
    case True
    have "?C = 0"
    proof (rule ccontr)
      assume C: "?C \<noteq> 0"
      define t where "t = (?B + 1) / (2 * ?C)"
      have t: "2 * t * ?C = ?B + 1" unfolding t_def using C by simp
      have "0 \<le> t\<^sup>2 * ?A - 2 * t * ?C + ?B" by (rule quad)
      then have "0 \<le> - (2 * t * ?C) + ?B" unfolding True by simp
      then show False unfolding t by simp
    qed
    then show ?thesis using True by simp
  next
    case False
    then have pos: "0 < ?A" using A by simp
    have "0 \<le> (?C / ?A)\<^sup>2 * ?A - 2 * (?C / ?A) * ?C + ?B" by (rule quad)
    also have "(?C / ?A)\<^sup>2 * ?A - 2 * (?C / ?A) * ?C + ?B = ?B - ?C\<^sup>2 / ?A"
      using False by (simp add: power2_eq_square field_simps)
    finally have "?C\<^sup>2 / ?A \<le> ?B" by simp
    then show ?thesis using pos by (simp add: pos_divide_le_eq mult.commute)
  qed
qed

lemma foldl_variance_Fin:
  "foldl (\<lambda>sum v. js_add sum (Math_pow2 (js_sub v (Fin m)))) (Fin a) (map Fin xs) =
     Fin (a + (\<Sum>x\<leftarrow>xs. (x - m)\<^sup>2))"
  by (induction xs arbitrary: a) (simp_all add: js_sub_def add.assoc)

lemma sum_list_nth: "(\<Sum>x\<leftarrow>xs. f x) = (\<Sum>k<length xs. f (xs ! k))" for f :: "real \<Rightarrow> real"
proof -
  have "(\<Sum>x\<leftarrow>xs. f x) = (\<Sum>k = 0..<length (map f xs). map f xs ! k)"
    by (rule sum_list_sum_nth)
  also have "\<dots> = (\<Sum>k<length xs. f (xs ! k))"
    by (simp add: atLeast0LessThan)
  finally show ?thesis .
qed

lemma variance_Fin:
  assumes "xs \<noteq> []"
  shows "variance (map Fin xs) =
     Fin ((\<Sum>k<length xs. (xs ! k - sum_list xs / real (length xs))\<^sup>2) / real (length xs))"
  using assms by (simp add: variance_def mean_Fin foldl_variance_Fin sum_list_nth)

lemma pearson_sum_Fin:
  assumes "n \<le> length xs" and "n \<le> length ys"
  shows "pearson_sum (map Fin xs) (map Fin ys) (Fin m1) (Fin m2) n =
     Fin (\<Sum>k<n. (xs ! k - m1) * (ys ! k - m2))"
  using assms unfolding pearson_sum_def
  by (induction n) (simp_all add: js_nth_def js_sub_def)

lemma stdDev_Fin:
  assumes "xs \<noteq> []"
  shows "stdDev (map Fin xs) =
     Fin (sqrt ((\<Sum>k<length xs. (xs ! k - sum_list xs / real (length xs))\<^sup>2) / real (length xs)))"
proof -
  have "0 \<le> (\<Sum>k<length xs. (xs ! k - sum_list xs / real (length xs))\<^sup>2) / real (length xs)"
    by (intro divide_nonneg_nonneg sum_nonneg) simp_all
  then show ?thesis by (simp add: stdDev_def variance_Fin [OF assms] not_less [symmetric])
qed

lemma pearson_bound:
  fixes A B C n :: real
  assumes "C\<^sup>2 \<le> A * B" and "0 \<le> A" and "0 \<le> B" and "0 < n"
    and "0 < sqrt (A / n)" and "0 < sqrt (B / n)"
  shows "\<bar>C / (n * sqrt (A / n) * sqrt (B / n))\<bar> \<le> 1"
proof -
  have sn: "sqrt n * sqrt n = n" using assms(4) by simp
  have "n * sqrt (A / n) * sqrt (B / n) = (sqrt A * sqrt B) * (n / (sqrt n * sqrt n))"
    by (simp add: real_sqrt_divide)
  also have "\<dots> = sqrt A * sqrt B" using assms(4) by (simp add: sn)
  finally have D: "n * sqrt (A / n) * sqrt (B / n) = sqrt (A * B)"
    by (simp add: real_sqrt_mult)
  have pos: "0 < sqrt (A * B)"
    using assms(4,5,6) D [symmetric] by simp
  have "\<bar>C\<bar>\<^sup>2 \<le> A * B" using assms(1) by simp
  then have "\<bar>C\<bar> \<le> sqrt (A * B)" by (rule real_le_rsqrt)
  then show ?thesis unfolding D using pos by simp
qed

lemma correlation_equal_length:
  assumes "length xs = length ys" and "xs \<noteq> []"
  shows "\<exists>r. correlation (stats_of (map Fin xs)) (stats_of (map Fin ys)) = Fin r \<and> - 1 \<le> r \<and> r \<le> 1"
proof -
  let ?n = "length xs"
  let ?mx = "sum_list xs / real ?n" and ?my = "sum_list ys / real ?n"
  let ?A = "\<Sum>k<?n. (xs ! k - ?mx)\<^sup>2" and ?B = "\<Sum>k<?n. (ys ! k - ?my)\<^sup>2"
  let ?C = "\<Sum>k<?n. (xs ! k - ?mx) * (ys ! k - ?my)"
  have ys: "ys \<noteq> []" "length ys = ?n" using assms by auto
  have n: "0 < real ?n" using assms(2) by simp
  have sd1: "stdDev (map Fin xs) = Fin (sqrt (?A / real ?n))" by (rule stdDev_Fin [OF assms(2)])
  have sd2: "stdDev (map Fin ys) = Fin (sqrt (?B / real ?n))"
    using stdDev_Fin [OF ys(1)] unfolding ys(2) .
  have m1: "mean (map Fin xs) = Fin ?mx" by (rule mean_Fin [OF assms(2)])
  have m2: "mean (map Fin ys) = Fin ?my" using mean_Fin [OF ys(1)] unfolding ys(2) .
  have ps: "pearson_sum (map Fin xs) (map Fin ys) (Fin ?mx) (Fin ?my) ?n = Fin ?C"
    by (rule pearson_sum_Fin) (simp_all add: ys(2))
  have corr: "correlation (stats_of (map Fin xs)) (stats_of (map Fin ys)) =
      (if 0 < sqrt (?A / real ?n) \<and> 0 < sqrt (?B / real ?n)
       then Fin (?C / (real ?n * sqrt (?A / real ?n) * sqrt (?B / real ?n))) else Fin 0)"
    unfolding correlation_def Let_def
    by (simp add: stats_of_def sd1 sd2 m1 m2 ys(2) ps js_gt_def)
  show ?thesis
  proof (cases "0 < sqrt (?A / real ?n) \<and> 0 < sqrt (?B / real ?n)")
    case True
    define r where "r = ?C / (real ?n * sqrt (?A / real ?n) * sqrt (?B / real ?n))"
    have "\<bar>r\<bar> \<le> 1"
      unfolding r_def using True n by (intro pearson_bound cauchy_schwarz_sum sum_nonneg) simp_all
    then have b: "- 1 \<le> r \<and> r \<le> 1" by linarith
    have "correlation (stats_of (map Fin xs)) (stats_of (map Fin ys)) = Fin r"
      unfolding r_def corr by (rule if_P [OF True])
    with b show ?thesis by blast
  next
    case False
    then show ?thesis using corr by auto
  qed
qed

section \<open>Correlation of sequences of different lengths\<close>

lemma uneven_A: "column uneven_rows ''A'' = [Fin 10, Fin (-10), Fin 0, Fin 0, Fin 0, Fin 0, Fin 0, Fin 0]"
  by (simp add: column_def uneven_rows_def parse_defs)
lemma uneven_B: "column uneven_rows ''B'' = [Fin 10, Fin (-10)]"
  by (simp add: column_def uneven_rows_def parse_defs)

lemma sqrt_25: "sqrt 25 = 5"
  by (rule real_sqrt_unique) simp_all
lemma sqrt_100: "sqrt 100 = 10"
  by (rule real_sqrt_unique) simp_all

lemma uneven_A_stats:
  "mean_s (stats_of [Fin 10, Fin (-10), Fin 0, Fin 0, Fin 0, Fin 0, Fin 0, Fin 0]) = Fin 0"
  "stdDev_s (stats_of [Fin 10, Fin (-10), Fin 0, Fin 0, Fin 0, Fin 0, Fin 0, Fin 0]) = Fin 5"
  "values_s (stats_of [Fin 10, Fin (-10), Fin 0, Fin 0, Fin 0, Fin 0, Fin 0, Fin 0])
     = [Fin 10, Fin (-10), Fin 0, Fin 0, Fin 0, Fin 0, Fin 0, Fin 0]"
  by (simp_all add: stats_of_def mean_def stdDev_def variance_def js_sub_def sqrt_25)

lemma uneven_B_stats:
  "mean_s (stats_of [Fin 10, Fin (-10)]) = Fin 0"
  "stdDev_s (stats_of [Fin 10, Fin (-10)]) = Fin 10"
  "values_s (stats_of [Fin 10, Fin (-10)]) = [Fin 10, Fin (-10)]"
  by (simp_all add: stats_of_def mean_def stdDev_def variance_def js_sub_def sqrt_100)

lemma uneven_statistics:
  "statistics uneven_params uneven_rows =
     [''A'' \<mapsto> Some (stats_of [Fin 10, Fin (-10), Fin 0, Fin 0, Fin 0, Fin 0, Fin 0, Fin 0]),
      ''B'' \<mapsto> Some (stats_of [Fin 10, Fin (-10)])]"
  by (simp add: statistics_def uneven_params_def uneven_A uneven_B)

lemma uneven_correlation:
  "correlation (stats_of [Fin 10, Fin (-10), Fin 0, Fin 0, Fin 0, Fin 0, Fin 0, Fin 0])
     (stats_of [Fin 10, Fin (-10)]) = Fin 2"
  by (simp add: corr_defs uneven_A_stats uneven_B_stats)

text \<open>
  Claim C1, at the rows where \<open>A\<close> has the values 10, -10, 0, 0, 0, 0, 0, 0 and \<open>B\<close>
  only 10, -10: the sum over the first two pairs is 200, the standard deviations over
  the full sequences are 5 and 10, and the value of the entry is 200 / (2 * 5 * 10) = 2,
  which is not at most 1.
\<close>

theorem correlation_outside_unit_interval:
  "correlations uneven_params (statistics uneven_params uneven_rows) =
     [(''A-B'', \<lparr> param1 = ''A'', param2 = ''B'', value_c = Fin 2, strength = ''strong'' \<rparr>)]
   \<and> \<not> js_le (Fin 2) (Fin 1)"
  unfolding uneven_statistics
  by (simp add: correlations_def uneven_params_def corr_step_def upt_rec uneven_correlation
     uneven_A_stats uneven_B_stats strength_of_def js_gt_def js_le_def js_eq_def)

section \<open>The trend lines of the chart\<close>

lemma chart_size: "chartWidth = Fin 610" "chartHeight = Fin 240"
  by (simp_all add: chartWidth_def chartHeight_def width_def height_def padding_left_def
      padding_right_def padding_top_def padding_bottom_def js_sub_def)

















section \<open>The bars of the chart\<close>

lemma bar_columns: "column bar_rows ''x'' = [Fin 5]" "column bar_rows ''y'' = [Fin 1, Fin 3]"
  by (simp_all add: column_def bar_rows_def parse_defs)

lemma bar_cells:
  "map (\<lambda>row. parseFloat (row ''x'')) bar_rows = [NaN, Fin 5]"
  "map (\<lambda>row. parseFloat (row ''y'')) bar_rows = [Fin 1, Fin 3]"
  by (simp_all add: bar_rows_def parse_defs)

lemma bar_scaleY:
  "scaleY bar_rows xy_params v = js_sub (Fin 240) (js_mul (js_div (js_sub v (Fin 1)) (Fin 4)) (Fin 240))"
  by (simp add: xy_params_def scaleY_def minY_def maxY_def yRange_def allValues_def
      Math_min_def Math_max_def min2_def max2_def js_or_def chart_size bar_columns)
     (simp add: js_sub_def)

lemma bar_scaleX: "scaleX bar_rows i = Fin (real i * 610)"
  by (simp add: scaleX_def js_or_def chart_size bar_rows_def)

lemma bar_validPoints:
  "validPoints bar_rows xy_params \<lparr>name = ''x'', unit = None\<rparr> =
     [(Fin 0, NaN, False), (Fin 610, Fin 0, True)]"
  "validPoints bar_rows xy_params \<lparr>name = ''y'', unit = None\<rparr> =
     [(Fin 0, Fin 240, True), (Fin 610, Fin 120, True)]"
  by (simp_all add: validPoints_def bar_cells bar_scaleX bar_scaleY js_sub_def)

lemma bar_width: "barWidth bar_rows xy_params = Fin 122"
  by (simp add: barWidth_def chart_size bar_rows_def xy_params_def)

text \<open>
  In a bar chart a series has one bar for each of its values, each of the width
  \<open>barWidth\<close>.
\<close>

lemma length_filter_enumerate:
  "length (filter (\<lambda>pt. snd (snd pt))
     (map (\<lambda>(i, v). (f i, g v, \<not> isNaN v)) (enumerate k vs))) =
   length (filter (\<lambda>v. \<not> isNaN v) vs)"
  by (induction vs arbitrary: k) simp_all

lemma length_filteredPoints:
  "length (filteredPoints data params p) = length (column data (name p))"
  unfolding filteredPoints_def validPoints_def column_def
  by (simp only: length_enumerate length_filter_enumerate)

lemma bar_count_and_width:
  "\<exists>rects. series data params ''bar'' p paramIndex = [G None rects]
     \<and> length rects = length (column data (name p))
     \<and> list_all (\<lambda>r. \<exists>x y h c opac. r = Rect x y (barWidth data params) h c opac) rects"
  by (simp add: series_def Let_def length_filteredPoints list_all_iff split_beta)

text \<open>
  Claim C5, at two rows and the series \<open>x\<close> and \<open>y\<close>, where the cell of \<open>x\<close> in the
  first row is no number. The one bar of \<open>x\<close> belongs to the second row, whose
  position is 610; it is drawn from -122, beside the position 0 of the first row (the
  bars of \<open>y\<close> start at 0 and at 610, and the marker of the same point in a scatter
  chart is at 610): the bar is placed by its index among the valid points of the
  series, and not by its row.
\<close>

theorem bar_position_by_filtered_index:
  "validPoints bar_rows xy_params \<lparr>name = ''x'', unit = None\<rparr> =
     [(Fin 0, NaN, False), (Fin 610, Fin 0, True)]
   \<and> barWidth bar_rows xy_params = Fin 122
   \<and> series bar_rows xy_params ''bar'' \<lparr>name = ''x'', unit = None\<rparr> 0 =
     [G None [Rect (Fin (- 122)) (Fin 0) (Fin 122) (Fin 240) ''#6366f1'' (Fin (8 / 10))]]
   \<and> series bar_rows xy_params ''bar'' \<lparr>name = ''y'', unit = None\<rparr> 1 =
     [G None [Rect (Fin 0) (Fin 240) (Fin 122) (Fin 0) ''#22c55e'' (Fin (8 / 10)),
              Rect (Fin 610) (Fin 120) (Fin 122) (Fin 120) ''#22c55e'' (Fin (8 / 10))]]
   \<and> series bar_rows xy_params ''scatter'' \<lparr>name = ''x'', unit = None\<rparr> 0 =
     [G None [Circle (Fin 610) (Fin 0) (Fin 6) ''#6366f1'' (Some (Fin (7 / 10)))]]"
  by (simp add: bar_validPoints bar_width)
     (simp_all add: series_def Let_def filteredPoints_def bar_validPoints bar_width
        COLORS_def chart_size js_sub_def bar_scaleX, simp_all add: xy_params_def)

end
